theory Spec2Isabelle
  imports Complex_Main "HOL-Library.Sublist" "HOL-Library.AList"
begin

section \<open>Python values used by the platform agents\<close>

text \<open>
  A content item is a Python dictionary read only through the keys \<^verbatim>\<open>"text"\<close>,
  \<^verbatim>\<open>"hashtags"\<close> and \<^verbatim>\<open>"image_url"\<close>. A field holding \<open>None\<close> is a key that is absent
  from the dictionary; \<^verbatim>\<open>content.copy()\<close> followed by a store to one key is a record
  update. A Python \<^verbatim>\<open>str\<close> is a list of characters and \<^verbatim>\<open>len\<close> is \<open>length\<close>.
\<close>

record content =
  c_text :: "string option"
  c_hashtags :: "string list option"
  c_image_url :: "string option"

text \<open>\<^verbatim>\<open>content.get("text", "")\<close> and \<^verbatim>\<open>content.get("hashtags", [])\<close>.\<close>

definition get_text :: "content \<Rightarrow> string" where
  "get_text c = (case c_text c of None \<Rightarrow> [] | Some t \<Rightarrow> t)"

definition get_hashtags :: "content \<Rightarrow> string list" where
  "get_hashtags c = (case c_hashtags c of None \<Rightarrow> [] | Some h \<Rightarrow> h)"

text \<open>
  The slice \<^verbatim>\<open>xs[:i]\<close>: a negative bound counts from the end, and a bound outside the
  list is clamped.
\<close>

definition py_slice_to :: "'a list \<Rightarrow> int \<Rightarrow> 'a list" where
  "py_slice_to xs i =
     (if 0 \<le> i then take (nat i) xs else take (length xs - nat (- i)) xs)"

text \<open>\<^verbatim>\<open>sep.join(parts)\<close>.\<close>

fun py_join :: "string \<Rightarrow> string list \<Rightarrow> string" where
  "py_join sep [] = []"
| "py_join sep [p] = p"
| "py_join sep (p # q # ps) = p @ sep @ py_join sep (q # ps)"

text \<open>\<^verbatim>\<open>" ".join(f"#{tag}" for tag in tags)\<close>.\<close>

definition hashtag_line :: "string list \<Rightarrow> string" where
  "hashtag_line tags = py_join '' '' (map (\<lambda>tag. CHR ''#'' # tag) tags)"

section \<open>optimize\_content of the four platform agents\<close>

definition twitter_optimize_content :: "content \<Rightarrow> content" where
  "twitter_optimize_content c =
     (let text = get_text c;
          hashtags = get_hashtags c;
          hashtag_text = hashtag_line (py_slice_to hashtags 5);
          available_chars = 280 - int (length hashtag_text) - 2;
          optimized =
            (if int (length text) > available_chars
             then c\<lparr>c_text := Some (py_slice_to text (available_chars - 3) @ ''...'')\<rparr>
             else c)
      in optimized\<lparr>c_hashtags := Some (py_slice_to hashtags 5)\<rparr>)"

definition facebook_optimize_content :: "content \<Rightarrow> content" where
  "facebook_optimize_content c =
     (let optimized =
            (if length (get_text c) > 500
             then c\<lparr>c_text := Some (py_slice_to (get_text c) 497 @ ''...'')\<rparr>
             else c);
          hashtags = get_hashtags optimized
      in if length hashtags > 5
         then optimized\<lparr>c_hashtags := Some (py_slice_to hashtags 5)\<rparr>
         else optimized)"

definition generic_hashtags :: "string list" where
  "generic_hashtags = [''#marketing'', ''#business'', ''#socialmedia'', ''#content'']"

definition instagram_optimize_content :: "content \<Rightarrow> content" where
  "instagram_optimize_content c =
     (let optimized =
            (if length (get_text c) > 300
             then c\<lparr>c_text := Some (py_slice_to (get_text c) 297 @ ''...'')\<rparr>
             else c);
          hashtags = get_hashtags optimized
      in if length hashtags > 30
         then optimized\<lparr>c_hashtags := Some (py_slice_to hashtags 30)\<rparr>
         else if length hashtags < 10
         then optimized\<lparr>c_hashtags :=
                Some (hashtags @ py_slice_to generic_hashtags (10 - int (length hashtags)))\<rparr>
         else optimized)"

definition tiktok_hashtags :: "string list" where
  "tiktok_hashtags = [''#fyp'', ''#viral'', ''#trending'', ''#marketing'', ''#business'']"

definition tiktok_optimize_content :: "content \<Rightarrow> content" where
  "tiktok_optimize_content c =
     (let optimized =
            (if length (get_text c) > 2200
             then c\<lparr>c_text := Some (py_slice_to (get_text c) 2197 @ ''...'')\<rparr>
             else c);
          hashtags = get_hashtags optimized
      in if length hashtags > 10
         then optimized\<lparr>c_hashtags := Some (py_slice_to hashtags 10)\<rparr>
         else if length hashtags < 3
         then optimized\<lparr>c_hashtags :=
                Some (hashtags @ py_slice_to tiktok_hashtags (3 - int (length hashtags)))\<rparr>
         else optimized)"

text \<open>
  The agent selected by platform id, and the constraint table read off the literals of
  the four functions above: the text limit, the hashtag limit, the hashtag count below
  which default hashtags are appended (\<open>0\<close> where the agent appends none) and the pool
  the defaults are taken from.
\<close>

datatype platform = Twitter | Facebook | Instagram | TikTok

definition optimize :: "platform \<Rightarrow> content \<Rightarrow> content" where
  "optimize p c =
     (case p of
        Twitter \<Rightarrow> twitter_optimize_content c
      | Facebook \<Rightarrow> facebook_optimize_content c
      | Instagram \<Rightarrow> instagram_optimize_content c
      | TikTok \<Rightarrow> tiktok_optimize_content c)"

fun max_text_length :: "platform \<Rightarrow> nat" where
  "max_text_length Twitter = 280"
| "max_text_length Facebook = 500"
| "max_text_length Instagram = 300"
| "max_text_length TikTok = 2200"

fun max_hashtags :: "platform \<Rightarrow> nat" where
  "max_hashtags Twitter = 5"
| "max_hashtags Facebook = 5"
| "max_hashtags Instagram = 30"
| "max_hashtags TikTok = 10"

fun min_hashtags :: "platform \<Rightarrow> nat" where
  "min_hashtags Twitter = 0"
| "min_hashtags Facebook = 0"
| "min_hashtags Instagram = 10"
| "min_hashtags TikTok = 3"

fun default_hashtags :: "platform \<Rightarrow> string list" where
  "default_hashtags Twitter = []"
| "default_hashtags Facebook = []"
| "default_hashtags Instagram = generic_hashtags"
| "default_hashtags TikTok = tiktok_hashtags"

text \<open>
  The local \<^verbatim>\<open>available_chars\<close> of the Twitter agent: what is left of 280 characters
  once the line of the first five hashtags and two separators are set aside.
\<close>

definition twitter_available_chars :: "content \<Rightarrow> int" where
  "twitter_available_chars c =
     280 - int (length (hashtag_line (py_slice_to (get_hashtags c) 5))) - 2"

text \<open>The inputs at which the stated properties are evaluated.\<close>

definition long_tweet :: content where
  "long_tweet =
     \<lparr>c_text = Some (replicate 281 CHR ''a''), c_hashtags = Some [], c_image_url = None\<rparr>"

definition bare_post :: content where
  "bare_post = \<lparr>c_text = Some ''hello'', c_hashtags = Some [], c_image_url = None\<rparr>"

definition marketing_post :: content where
  "marketing_post =
     \<lparr>c_text = Some ''hello'', c_hashtags = Some [''#marketing''], c_image_url = None\<rparr>"

definition six_tag_post :: content where
  "six_tag_post =
     \<lparr>c_text = Some ''hello'',
      c_hashtags = Some [''a'', ''b'', ''c'', ''d'', ''e'', ''f''], c_image_url = None\<rparr>"

definition long_tag_tweet :: content where
  "long_tag_tweet =
     \<lparr>c_text = Some ''abcdef'', c_hashtags = Some [replicate 275 CHR ''x''],
      c_image_url = None\<rparr>"

section \<open>publish\_content of the four platform agents\<close>

text \<open>
  An exception is a value. \<^verbatim>\<open>str(e)\<close> of an \<^verbatim>\<open>Exception\<close> is its message; \<^verbatim>\<open>str(e)\<close> of
  a \<^verbatim>\<open>KeyError\<close> is the \<^verbatim>\<open>repr\<close> of the missing key, and a \<open>KeyError\<close> here holds that
  rendering. The one key whose absence raises is \<^verbatim>\<open>'id'\<close>, rendered with its quotes. A
  function that may raise returns \<open>exn + 'a\<close>, and a \<^verbatim>\<open>try\<close> block with an
  \<^verbatim>\<open>except Exception\<close> handler is a case distinction on that sum.
\<close>

datatype exn = Exception string | KeyError string

fun str_exn :: "exn \<Rightarrow> string" where
  "str_exn (Exception msg) = msg"
| "str_exn (KeyError key_repr) = key_repr"

definition repr_id :: string where
  "repr_id = [CHR 0x27] @ ''id'' @ [CHR 0x27]"

type_synonym py_dict = "(string \<times> string) list"

text \<open>
  The dictionary \<^verbatim>\<open>publish_content\<close> returns: \<^verbatim>\<open>"status"\<close> is \<^verbatim>\<open>"success"\<close> or
  \<^verbatim>\<open>"failed"\<close>; a success carries the post identifier (Python \<^verbatim>\<open>None\<close> is \<open>None\<close>)
  and the agent's further keys, a failure the error message.
\<close>

datatype publish_result =
    Success (r_platform: string) (r_post_id: "string option") (r_client_id: string)
      (r_extras: py_dict)
  | Failed (r_platform: string) (r_error: string) (r_client_id: string)

fun r_status :: "publish_result \<Rightarrow> string" where
  "r_status (Success _ _ _ _) = ''success''"
| "r_status (Failed _ _ _) = ''failed''"

text \<open>Truthiness of an optional string and of an optional dictionary.\<close>

definition truthy :: "'a list option \<Rightarrow> bool" where
  "truthy v = (case v of None \<Rightarrow> False | Some xs \<Rightarrow> xs \<noteq> [])"

definition two_newlines :: string where
  "two_newlines = [CHR 0x0A, CHR 0x0A]"

text \<open>
  \<^verbatim>\<open>self.client\<close> of the Twitter agent is \<open>None\<close> or a client whose \<^verbatim>\<open>create_tweet\<close>
  raises or returns a response; the response is represented by its \<^verbatim>\<open>data\<close>.
\<close>

type_synonym twitter_client = "string \<Rightarrow> exn + py_dict option"

definition twitter_publish_try ::
    "twitter_client option \<Rightarrow> content \<Rightarrow> string \<Rightarrow> exn + publish_result" where
  "twitter_publish_try client c client_id =
     (case client of
        None \<Rightarrow> Inl (Exception ''Twitter client not initialized'')
      | Some create_tweet \<Rightarrow>
          (let text = get_text c;
               hashtags = get_hashtags c;
               tweet_text =
                 (if hashtags \<noteq> [] then text @ two_newlines @ hashtag_line hashtags
                  else text);
               tweet_text =
                 (if length tweet_text > 280 then py_slice_to tweet_text 277 @ ''...''
                  else tweet_text)
           in case create_tweet tweet_text of
                Inl e \<Rightarrow> Inl e
              | Inr data \<Rightarrow>
                  if truthy data
                  then (case map_of (the data) ''id'' of
                          None \<Rightarrow> Inl (KeyError repr_id)
                        | Some i \<Rightarrow>
                            Inr (Success ''twitter'' (Some i) client_id
                                   [(''text'', tweet_text)]))
                  else Inl (Exception ''Tweet creation failed - no response data'')))"

definition twitter_publish_content ::
    "twitter_client option \<Rightarrow> content \<Rightarrow> string \<Rightarrow> publish_result" where
  "twitter_publish_content client c client_id =
     (case twitter_publish_try client c client_id of
        Inr r \<Rightarrow> r
      | Inl e \<Rightarrow> Failed ''twitter'' (str_exn e) client_id)"

text \<open>
  \<^verbatim>\<open>self.graph\<close> of the Facebook agent is \<open>None\<close> or a Graph API object whose
  \<^verbatim>\<open>put_object\<close> takes the post data and raises or returns a dictionary.
\<close>

type_synonym graph_api = "py_dict \<Rightarrow> exn + py_dict"

definition facebook_publish_try ::
    "graph_api option \<Rightarrow> content \<Rightarrow> string \<Rightarrow> exn + publish_result" where
  "facebook_publish_try graph c client_id =
     (case graph of
        None \<Rightarrow> Inl (Exception ''Facebook Graph API not initialized'')
      | Some put_object \<Rightarrow>
          (let post_data = [(''message'', get_text c)];
               post_data =
                 (if truthy (c_image_url c) then post_data @ [(''link'', the (c_image_url c))]
                  else post_data)
           in case put_object post_data of
                Inl e \<Rightarrow> Inl e
              | Inr result \<Rightarrow>
                  Inr (Success ''facebook'' (map_of result ''id'') client_id [])))"

definition facebook_publish_content ::
    "graph_api option \<Rightarrow> content \<Rightarrow> string \<Rightarrow> publish_result" where
  "facebook_publish_content graph c client_id =
     (case facebook_publish_try graph c client_id of
        Inr r \<Rightarrow> r
      | Inl e \<Rightarrow> Failed ''facebook'' (str_exn e) client_id)"

text \<open>\<^verbatim>\<open>str(n)\<close> for an integer, as an f-string renders it.\<close>

definition digit_char :: "nat \<Rightarrow> char" where
  "digit_char d = ''0123456789'' ! d"

function str_nat :: "nat \<Rightarrow> string" where
  "str_nat n =
     (if n < 10 then [digit_char n] else str_nat (n div 10) @ [digit_char (n mod 10)])"
  by pat_completeness auto
termination
  by (relation "measure (\<lambda>n. n)") auto

declare str_nat.simps [simp del]

definition str_int :: "int \<Rightarrow> string" where
  "str_int i = (if i < 0 then CHR ''-'' # str_nat (nat (- i)) else str_nat (nat i))"

text \<open>
  The Instagram and TikTok agents make no external call. Python's \<^verbatim>\<open>hash\<close> of a string
  differs from process to process, so it is a parameter; \<^verbatim>\<open>%\<close> with a positive modulus
  is \<open>mod\<close>. \<open>token\<close> is the setting \<^verbatim>\<open>FACEBOOK_ACCESS_TOKEN\<close>.
\<close>

definition caption_of :: "content \<Rightarrow> string" where
  "caption_of c =
     (let caption = get_text c;
          hashtags = get_hashtags c
      in if hashtags \<noteq> [] then caption @ two_newlines @ hashtag_line hashtags
         else caption)"

definition instagram_publish_try ::
    "(string \<Rightarrow> int) \<Rightarrow> string option \<Rightarrow> content \<Rightarrow> string \<Rightarrow> exn + publish_result" where
  "instagram_publish_try hash token c client_id =
     (if \<not> truthy token then Inl (Exception ''Instagram access token not configured'')
      else
        (let caption = caption_of c
         in Inr (Success ''instagram''
                   (Some (''ig_'' @ client_id @ ''_'' @ str_int (hash caption mod 10000)))
                   client_id [(''caption'', caption)])))"

definition instagram_publish_content ::
    "(string \<Rightarrow> int) \<Rightarrow> string option \<Rightarrow> content \<Rightarrow> string \<Rightarrow> publish_result" where
  "instagram_publish_content hash token c client_id =
     (case instagram_publish_try hash token c client_id of
        Inr r \<Rightarrow> r
      | Inl e \<Rightarrow> Failed ''instagram'' (str_exn e) client_id)"

definition tiktok_publish_try ::
    "(string \<Rightarrow> int) \<Rightarrow> content \<Rightarrow> string \<Rightarrow> exn + publish_result" where
  "tiktok_publish_try hash c client_id =
     (let description = caption_of c
      in Inr (Success ''tiktok''
                (Some (''tiktok_'' @ client_id @ ''_'' @ str_int (hash description mod 10000)))
                client_id
                [(''description'', description),
                 (''note'', ''TikTok posting requires video content - this is a simulation'')]))"

definition tiktok_publish_content ::
    "(string \<Rightarrow> int) \<Rightarrow> content \<Rightarrow> string \<Rightarrow> publish_result" where
  "tiktok_publish_content hash c client_id =
     (case tiktok_publish_try hash c client_id of
        Inr r \<Rightarrow> r
      | Inl e \<Rightarrow> Failed ''tiktok'' (str_exn e) client_id)"

text \<open>A Graph API object whose \<^verbatim>\<open>put_object\<close> answers with an empty dictionary.\<close>

definition empty_reply_graph :: graph_api where
  "empty_reply_graph post_data = Inr []"

section \<open>The executive agent\<close>

text \<open>
  \<^verbatim>\<open>ExecutiveState\<close>. Timestamps are integers; the n-th call of \<^verbatim>\<open>datetime.now()\<close>
  within one execution returns \<open>clock n\<close>.
\<close>

record executive_state =
  client_id :: string
  campaign_id :: "string option"
  objective :: string
  content_brief :: string
  target_platforms :: "string list"
  generated_content :: py_dict
  published_content :: py_dict
  analytics_data :: py_dict
  ghl_data :: py_dict
  error_messages :: "string list"
  status :: string
  created_at :: int
  updated_at :: int

definition analyze_brief :: "int \<Rightarrow> executive_state \<Rightarrow> executive_state" where
  "analyze_brief now state = state\<lparr>status := ''brief_analyzed'', updated_at := now\<rparr>"

definition generate_content :: "int \<Rightarrow> executive_state \<Rightarrow> executive_state" where
  "generate_content now state = state\<lparr>status := ''content_generated'', updated_at := now\<rparr>"

definition finalize :: "int \<Rightarrow> executive_state \<Rightarrow> executive_state" where
  "finalize now state = state\<lparr>status := ''completed'', updated_at := now\<rparr>"

text \<open>
  The graph of \<^verbatim>\<open>_build_workflow\<close>: three nodes, the entry point, one edge out of each
  node, and the end marker.
\<close>

datatype node = Analyze_Brief | Generate_Content | Finalize | END

definition entry_point :: node where
  "entry_point = Analyze_Brief"

fun edge :: "node \<Rightarrow> node" where
  "edge Analyze_Brief = Generate_Content"
| "edge Generate_Content = Finalize"
| "edge Finalize = END"
| "edge END = END"

fun node_action :: "node \<Rightarrow> int \<Rightarrow> executive_state \<Rightarrow> executive_state" where
  "node_action Analyze_Brief = analyze_brief"
| "node_action Generate_Content = generate_content"
| "node_action Finalize = finalize"
| "node_action END = (\<lambda>now state. state)"

fun rank :: "node \<Rightarrow> nat" where
  "rank Analyze_Brief = 3"
| "rank Generate_Content = 2"
| "rank Finalize = 1"
| "rank END = 0"

text \<open>
  Running the compiled graph from a node: the node's action on the state, then the node
  its edge leads to, until the end marker. \<open>n\<close> counts the clock readings made so far.
  \<open>workflow_states\<close> lists the state after every node run; \<open>run_workflow\<close> is the
  state the run ends in.
\<close>

lemma rank_edge: "nd \<noteq> END \<Longrightarrow> rank (edge nd) < rank nd"
  by (cases nd) simp_all

function workflow_states ::
    "(nat \<Rightarrow> int) \<Rightarrow> nat \<Rightarrow> node \<Rightarrow> executive_state \<Rightarrow> executive_state list" where
  "workflow_states clock n nd state =
     (if nd = END then []
      else (let state' = node_action nd (clock n) state
            in state' # workflow_states clock (Suc n) (edge nd) state'))"
  by pat_completeness auto
termination
  by (relation "measure (\<lambda>(clock, n, nd, state). rank nd)") (simp_all add: rank_edge)

function run_workflow ::
    "(nat \<Rightarrow> int) \<Rightarrow> nat \<Rightarrow> node \<Rightarrow> executive_state \<Rightarrow> executive_state" where
  "run_workflow clock n nd state =
     (if nd = END then state
      else run_workflow clock (Suc n) (edge nd) (node_action nd (clock n) state))"
  by pat_completeness auto
termination
  by (relation "measure (\<lambda>(clock, n, nd, state). rank nd)") (simp_all add: rank_edge)

declare workflow_states.simps [simp del] run_workflow.simps [simp del]

definition initial_state ::
    "(nat \<Rightarrow> int) \<Rightarrow> string \<Rightarrow> string \<Rightarrow> string \<Rightarrow> string list \<Rightarrow> string option
       \<Rightarrow> executive_state" where
  "initial_state clock cid obj brief platforms camp =
     \<lparr>client_id = cid, campaign_id = camp, objective = obj, content_brief = brief,
      target_platforms = platforms, generated_content = [], published_content = [],
      analytics_data = [], ghl_data = [], error_messages = [], status = ''started'',
      created_at = clock 0, updated_at = clock 1\<rparr>"

text \<open>
  \<^verbatim>\<open>execute_campaign\<close>: the initial state, then the workflow; an exception of the
  workflow is logged and raised again.
\<close>

definition ainvoke :: "(nat \<Rightarrow> int) \<Rightarrow> executive_state \<Rightarrow> exn + executive_state" where
  "ainvoke clock state = Inr (run_workflow clock 2 entry_point state)"

definition execute_campaign ::
    "(nat \<Rightarrow> int) \<Rightarrow> string \<Rightarrow> string \<Rightarrow> string \<Rightarrow> string list \<Rightarrow> string option
       \<Rightarrow> exn + executive_state" where
  "execute_campaign clock cid obj brief platforms camp =
     (case ainvoke clock (initial_state clock cid obj brief platforms camp) of
        Inr result \<Rightarrow> Inr result
      | Inl e \<Rightarrow> Inl e)"

text \<open>The sequence of states of one execution, the initial state first.\<close>

definition execution_states ::
    "(nat \<Rightarrow> int) \<Rightarrow> string \<Rightarrow> string \<Rightarrow> string \<Rightarrow> string list \<Rightarrow> string option
       \<Rightarrow> executive_state list" where
  "execution_states clock cid obj brief platforms camp =
     (let s0 = initial_state clock cid obj brief platforms camp
      in s0 # workflow_states clock 2 entry_point s0)"

section \<open>The vector store manager\<close>

text \<open>
  Metadata is a dictionary from strings to strings and integers, kept as a list of
  pairs; \<^verbatim>\<open>{**metadata, key: value}\<close> is \<open>AList.update\<close>. Embeddings, distances and
  similarity scores are numbers, idealised as reals.
\<close>

datatype meta_value = MStr string | MInt int

type_synonym metadata = "(string \<times> meta_value) list"

fun str_meta :: "meta_value \<Rightarrow> string" where
  "str_meta (MStr s) = s"
| "str_meta (MInt i) = str_int i"

text \<open>
  The Chroma collection and the sentence encoder are objects of external libraries: a
  record of the methods called on them, each of which may raise. \<^verbatim>\<open>query\<close> and
  \<^verbatim>\<open>get\<close> answer with parallel lists, kept here as one list of rows.
\<close>

record chroma_collection =
  col_add :: "real list \<Rightarrow> string \<Rightarrow> metadata \<Rightarrow> string \<Rightarrow> exn + unit"
  col_query ::
    "real list \<Rightarrow> int \<Rightarrow> metadata option
       \<Rightarrow> exn + (string \<times> metadata \<times> real \<times> string option) list"
  col_get :: "string \<Rightarrow> exn + (string \<times> metadata) list"
  col_delete :: "string \<Rightarrow> exn + unit"

type_synonym sentence_encoder = "string \<Rightarrow> exn + real list"

record vector_store_manager =
  storage_path :: string
  vs_client :: "unit option"
  collection :: "chroma_collection option"
  encoder :: "sentence_encoder option"

text \<open>The manager as \<^verbatim>\<open>__init__\<close> leaves it.\<close>

definition new_manager :: "string \<Rightarrow> vector_store_manager" where
  "new_manager path =
     \<lparr>storage_path = path, vs_client = None, collection = None, encoder = None\<rparr>"

text \<open>
  \<^verbatim>\<open>initialize\<close>: the client, then the collection, then the encoder. Each of the three
  constructions may raise; the exception is logged and raised again, and what was
  assigned before it stays assigned. The result is the manager and the exception raised,
  if any.
\<close>

definition initialize ::
    "exn + (exn + chroma_collection) \<Rightarrow> exn + sentence_encoder \<Rightarrow> vector_store_manager
       \<Rightarrow> vector_store_manager \<times> exn option" where
  "initialize persistent_client sentence_transformer m =
     (case persistent_client of
        Inl e \<Rightarrow> (m, Some e)
      | Inr get_or_create_collection \<Rightarrow>
          (let m1 = m\<lparr>vs_client := Some ()\<rparr>
           in case get_or_create_collection of
                Inl e \<Rightarrow> (m1, Some e)
              | Inr col \<Rightarrow>
                  (let m2 = m1\<lparr>collection := Some col\<rparr>
                   in case sentence_transformer of
                        Inl e \<Rightarrow> (m2, Some e)
                      | Inr enc \<Rightarrow> (m2\<lparr>encoder := Some enc\<rparr>, None))))"

text \<open>
  \<^verbatim>\<open>store_content\<close>. \<open>hash\<close> is Python's string hash, \<open>now_ts\<close> and \<open>now_iso\<close> the
  two clock readings. The handler logs and raises again.
\<close>

definition store_content_try ::
    "vector_store_manager \<Rightarrow> (string \<Rightarrow> int) \<Rightarrow> int \<Rightarrow> string \<Rightarrow> string \<Rightarrow> metadata
       \<Rightarrow> string option \<Rightarrow> exn + string" where
  "store_content_try m hash now_ts now_iso content md content_id =
     (if collection m = None \<or> encoder m = None
      then Inl (Exception ''Vector store not initialized'')
      else
        (case the (encoder m) content of
           Inl e \<Rightarrow> Inl e
         | Inr embedding \<Rightarrow>
             (let content_id =
                    (if \<not> truthy content_id
                     then (case map_of md ''type'' of None \<Rightarrow> ''content'' | Some v \<Rightarrow> str_meta v)
                            @ ''_'' @ str_int (hash content mod 100000)
                            @ ''_'' @ str_int now_ts
                     else the content_id);
                  store_metadata =
                    AList.update ''content_length'' (MInt (int (length content)))
                      (AList.update ''stored_at'' (MStr now_iso) md)
              in case col_add (the (collection m)) embedding content store_metadata content_id of
                   Inl e \<Rightarrow> Inl e
                 | Inr u \<Rightarrow> Inr content_id)))"

definition store_content ::
    "vector_store_manager \<Rightarrow> (string \<Rightarrow> int) \<Rightarrow> int \<Rightarrow> string \<Rightarrow> string \<Rightarrow> metadata
       \<Rightarrow> string option \<Rightarrow> exn + string" where
  "store_content m hash now_ts now_iso content md content_id =
     (case store_content_try m hash now_ts now_iso content md content_id of
        Inr r \<Rightarrow> Inr r
      | Inl e \<Rightarrow> Inl e)"

text \<open>\<^verbatim>\<open>search_similar_content\<close>. The handler logs and returns the empty list.\<close>

record search_hit =
  hit_content :: string
  hit_metadata :: metadata
  similarity_score :: real
  hit_id :: "string option"

definition search_similar_content_try ::
    "vector_store_manager \<Rightarrow> string \<Rightarrow> int \<Rightarrow> metadata option \<Rightarrow> exn + search_hit list" where
  "search_similar_content_try m query limit filter_metadata =
     (if collection m = None \<or> encoder m = None
      then Inl (Exception ''Vector store not initialized'')
      else
        (case the (encoder m) query of
           Inl e \<Rightarrow> Inl e
         | Inr query_embedding \<Rightarrow>
             (let where_clause = (if truthy filter_metadata then filter_metadata else None)
              in case col_query (the (collection m)) query_embedding limit where_clause of
                   Inl e \<Rightarrow> Inl e
                 | Inr results \<Rightarrow>
                     Inr (map (\<lambda>(doc, meta, dist, i).
                                 \<lparr>hit_content = doc, hit_metadata = meta,
                                  similarity_score = 1 - dist, hit_id = i\<rparr>)
                            results))))"

definition search_similar_content ::
    "vector_store_manager \<Rightarrow> string \<Rightarrow> int \<Rightarrow> metadata option \<Rightarrow> search_hit list" where
  "search_similar_content m query limit filter_metadata =
     (case search_similar_content_try m query limit filter_metadata of
        Inr r \<Rightarrow> r
      | Inl e \<Rightarrow> [])"

text \<open>\<^verbatim>\<open>get_content_by_id\<close>. The handler logs and returns \<open>None\<close>.\<close>

definition get_content_by_id_try ::
    "vector_store_manager \<Rightarrow> string \<Rightarrow> exn + (string \<times> metadata \<times> string) option" where
  "get_content_by_id_try m content_id =
     (if collection m = None then Inl (Exception ''Vector store not initialized'')
      else
        (case col_get (the (collection m)) content_id of
           Inl e \<Rightarrow> Inl e
         | Inr results \<Rightarrow>
             (case results of
                [] \<Rightarrow> Inr None
              | (doc, meta) # rest \<Rightarrow> Inr (Some (doc, meta, content_id)))))"

definition get_content_by_id ::
    "vector_store_manager \<Rightarrow> string \<Rightarrow> (string \<times> metadata \<times> string) option" where
  "get_content_by_id m content_id =
     (case get_content_by_id_try m content_id of
        Inr r \<Rightarrow> r
      | Inl e \<Rightarrow> None)"

text \<open>\<^verbatim>\<open>delete_content\<close>. The handler logs and returns \<open>False\<close>.\<close>

definition delete_content_try :: "vector_store_manager \<Rightarrow> string \<Rightarrow> exn + bool" where
  "delete_content_try m content_id =
     (if collection m = None then Inl (Exception ''Vector store not initialized'')
      else
        (case col_delete (the (collection m)) content_id of
           Inl e \<Rightarrow> Inl e
         | Inr u \<Rightarrow> Inr True))"

definition delete_content :: "vector_store_manager \<Rightarrow> string \<Rightarrow> bool" where
  "delete_content m content_id =
     (case delete_content_try m content_id of
        Inr r \<Rightarrow> r
      | Inl e \<Rightarrow> False)"

text \<open>Further inputs at which the stated properties are evaluated.\<close>

definition long_post :: content where
  "long_post =
     \<lparr>c_text = Some (replicate 501 CHR ''a''), c_hashtags = Some [], c_image_url = None\<rparr>"

definition length_hash :: "string \<Rightarrow> int" where
  "length_hash s = int (length s)"

definition two_tag_post :: content where
  "two_tag_post =
     \<lparr>c_text = Some ''hello'', c_hashtags = Some [''sale'', ''new''], c_image_url = None\<rparr>"

definition negated_length_hash :: "string \<Rightarrow> int" where
  "negated_length_hash s = - int (length s)"

text \<open>A content item within the limits of an agent.\<close>

definition satisfies_constraints :: "platform \<Rightarrow> content \<Rightarrow> bool" where
  "satisfies_constraints p c =
     (length (get_text c) \<le> max_text_length p
      \<and> min_hashtags p \<le> length (get_hashtags c)
      \<and> length (get_hashtags c) \<le> max_hashtags p)"

section \<open>Slices and dictionary reads\<close>

lemma py_slice_to_nat [simp]: "py_slice_to xs (int n) = take n xs"
  by (simp add: py_slice_to_def)

lemma py_slice_to_numeral [simp]: "py_slice_to xs (numeral k) = take (numeral k) xs"
  by (simp add: py_slice_to_def)

lemma py_slice_to_diff:
  "n \<le> k \<Longrightarrow> py_slice_to xs (int k - int n) = take (k - n) xs"
  by (simp add: py_slice_to_def nat_diff_distrib')

lemma get_hashtags_upd [simp]: "get_hashtags (c\<lparr>c_hashtags := Some h\<rparr>) = h"
  by (simp add: get_hashtags_def)

lemma get_hashtags_text_upd [simp]: "get_hashtags (c\<lparr>c_text := t\<rparr>) = get_hashtags c"
  by (simp add: get_hashtags_def)

lemma get_text_upd [simp]: "get_text (c\<lparr>c_text := Some t\<rparr>) = t"
  by (simp add: get_text_def)

lemma get_text_hashtags_upd [simp]: "get_text (c\<lparr>c_hashtags := h\<rparr>) = get_text c"
  by (simp add: get_text_def)

section \<open>What optimize\_content returns\<close>

lemma hashtags_twitter:
  "get_hashtags (twitter_optimize_content c) = take 5 (get_hashtags c)"
  by (simp add: twitter_optimize_content_def Let_def)

lemma hashtags_facebook:
  "get_hashtags (facebook_optimize_content c) =
     (let h = get_hashtags c in if length h > 5 then take 5 h else h)"
  by (simp add: facebook_optimize_content_def Let_def)

lemma hashtags_instagram:
  "get_hashtags (instagram_optimize_content c) =
     (let h = get_hashtags c in
      if length h > 30 then take 30 h
      else if length h < 10 then h @ take (10 - length h) generic_hashtags
      else h)"
  using py_slice_to_diff [of "length (get_hashtags c)" 10 generic_hashtags]
  by (simp add: instagram_optimize_content_def Let_def)

lemma hashtags_tiktok:
  "get_hashtags (tiktok_optimize_content c) =
     (let h = get_hashtags c in
      if length h > 10 then take 10 h
      else if length h < 3 then h @ take (3 - length h) tiktok_hashtags
      else h)"
  using py_slice_to_diff [of "length (get_hashtags c)" 3 tiktok_hashtags]
  by (simp add: tiktok_optimize_content_def Let_def)

lemma text_twitter:
  "get_text (twitter_optimize_content c) =
     (if int (length (get_text c)) > twitter_available_chars c
      then py_slice_to (get_text c) (twitter_available_chars c - 3) @ ''...''
      else get_text c)"
  by (simp add: twitter_optimize_content_def twitter_available_chars_def Let_def)

lemma text_facebook:
  "get_text (facebook_optimize_content c) =
     (if length (get_text c) > 500 then take 497 (get_text c) @ ''...'' else get_text c)"
  by (simp add: facebook_optimize_content_def Let_def)

lemma text_instagram:
  "get_text (instagram_optimize_content c) =
     (if length (get_text c) > 300 then take 297 (get_text c) @ ''...'' else get_text c)"
  by (simp add: instagram_optimize_content_def Let_def)

lemma text_tiktok:
  "get_text (tiktok_optimize_content c) =
     (if length (get_text c) > 2200 then take 2197 (get_text c) @ ''...'' else get_text c)"
  by (simp add: tiktok_optimize_content_def Let_def)

lemma twitter_available_le: "twitter_available_chars c \<le> 278"
  by (simp add: twitter_available_chars_def)

lemma length_slice_twitter:
  "3 \<le> a \<Longrightarrow> a < int (length t) \<Longrightarrow> int (length (py_slice_to t (a - 3) @ ''...'')) = a"
  by (simp add: py_slice_to_def)

lemma length_generic_hashtags: "length generic_hashtags = 4"
  by (simp add: generic_hashtags_def)

lemma length_tiktok_hashtags: "length tiktok_hashtags = 5"
  by (simp add: tiktok_hashtags_def)

lemma available_long_tweet: "twitter_available_chars long_tweet = 278"
  by (simp add: twitter_available_chars_def long_tweet_def get_hashtags_def hashtag_line_def)

lemma available_long_tag_tweet: "twitter_available_chars long_tag_tweet = 2"
  by (simp add: twitter_available_chars_def long_tag_tweet_def get_hashtags_def
      hashtag_line_def)

lemma hashtags_bare_post: "get_hashtags bare_post = []"
  by (simp add: bare_post_def get_hashtags_def)

lemma hashtags_marketing_post: "get_hashtags marketing_post = [''#marketing'']"
  by (simp add: marketing_post_def get_hashtags_def)

lemma hashtags_six_tag_post: "get_hashtags six_tag_post = [''a'', ''b'', ''c'', ''d'', ''e'', ''f'']"
  by (simp add: six_tag_post_def get_hashtags_def)

text \<open>
  C1 (as amended). For every agent and every content item whose text is longer than the
  agent's text limit (Twitter 280, Facebook 500, Instagram 300, TikTok 2200), the text
  that \<open>optimize\<close> returns ends with the three-character marker \<^verbatim>\<open>...\<close>. For Facebook,
  Instagram and TikTok its length is exactly the limit. For Twitter its length is exactly
  \<^verbatim>\<open>available_chars\<close>, that is 278 less the length of the line of the first five
  hashtags, whenever that number is at least 3: the agent keeps room for the hashtags, so
  the text is never cut to 280 characters.
\<close>

theorem optimize_truncates_text:
  assumes "max_text_length p < length (get_text c)"
  shows "suffix ''...'' (get_text (optimize p c))
         \<and> (p \<noteq> Twitter \<longrightarrow> length (get_text (optimize p c)) = max_text_length p)
         \<and> (p = Twitter \<and> 3 \<le> twitter_available_chars c \<longrightarrow>
              int (length (get_text (optimize p c))) = twitter_available_chars c)"
proof (cases p)
  case Twitter
  have "twitter_available_chars c < int (length (get_text c))"
    using assms Twitter twitter_available_le [of c] by simp
  then show ?thesis
    using Twitter length_slice_twitter [of "twitter_available_chars c" "get_text c"]
    by (simp add: optimize_def text_twitter suffix_def)
next
  case Facebook
  then show ?thesis using assms by (simp add: optimize_def text_facebook suffix_def)
next
  case Instagram
  then show ?thesis using assms by (simp add: optimize_def text_instagram suffix_def)
next
  case TikTok
  then show ?thesis using assms by (simp add: optimize_def text_tiktok suffix_def)
qed

theorem optimize_truncates_text_witness:
  "max_text_length Twitter < length (get_text long_tweet)
   \<and> 3 \<le> twitter_available_chars long_tweet
   \<and> suffix ''...'' (get_text (optimize Twitter long_tweet))
   \<and> int (length (get_text (optimize Twitter long_tweet))) = twitter_available_chars long_tweet
   \<and> max_text_length Facebook < length (get_text long_post)
   \<and> suffix ''...'' (get_text (optimize Facebook long_post))
   \<and> length (get_text (optimize Facebook long_post)) = max_text_length Facebook"
proof -
  have t: "max_text_length Twitter < length (get_text long_tweet)"
    by (simp add: long_tweet_def get_text_def)
  have f: "max_text_length Facebook < length (get_text long_post)"
    by (simp add: long_post_def get_text_def)
  show ?thesis
    using t f optimize_truncates_text [OF t] optimize_truncates_text [OF f]
      available_long_tweet
    by simp
qed

theorem twitter_text_limit_counterexample:
  "max_text_length Twitter < length (get_text long_tweet)
   \<and> length (get_text (optimize Twitter long_tweet)) = 278
   \<and> length (get_text (optimize Twitter long_tweet)) \<noteq> max_text_length Twitter"
proof -
  have "length (get_text (optimize Twitter long_tweet)) = 278"
    using available_long_tweet
    by (simp add: optimize_def text_twitter) (simp add: long_tweet_def get_text_def)
  then show ?thesis by (simp add: long_tweet_def get_text_def)
qed

text \<open>
  C2 (as amended). For every agent and every content item, the content \<open>optimize\<close>
  returns has at most \<open>max_hashtags\<close> hashtags, and at least \<open>min_hashtags\<close> of them or,
  where the pool of defaults is too small for that, as many as the input has plus the
  whole pool; its text is at most \<open>max_text_length\<close> long for Facebook, Instagram and
  TikTok, and for Twitter whenever \<^verbatim>\<open>available_chars\<close> is at least 3.
\<close>

theorem optimize_constraints:
  "length (get_hashtags (optimize p c)) \<le> max_hashtags p
   \<and> min (min_hashtags p) (length (get_hashtags c) + length (default_hashtags p))
        \<le> length (get_hashtags (optimize p c))
   \<and> ((p = Twitter \<longrightarrow> 3 \<le> twitter_available_chars c) \<longrightarrow>
        length (get_text (optimize p c)) \<le> max_text_length p)"
proof (cases p)
  case Twitter
  have "3 \<le> twitter_available_chars c \<Longrightarrow> length (get_text (twitter_optimize_content c)) \<le> 280"
    using twitter_available_le [of c]
      length_slice_twitter [of "twitter_available_chars c" "get_text c"]
    by (auto simp: text_twitter simp del: length_append)
  then show ?thesis using Twitter
    by (simp add: optimize_def hashtags_twitter)
next
  case Facebook
  then show ?thesis by (simp add: optimize_def text_facebook hashtags_facebook Let_def)
next
  case Instagram
  then show ?thesis using length_generic_hashtags
    by (auto simp: optimize_def text_instagram hashtags_instagram Let_def)
next
  case TikTok
  then show ?thesis using length_tiktok_hashtags
    by (auto simp: optimize_def text_tiktok hashtags_tiktok Let_def)
qed

theorem optimize_constraints_witness:
  "3 \<le> twitter_available_chars long_tweet
   \<and> length (get_text (optimize Twitter long_tweet)) \<le> max_text_length Twitter
   \<and> length (get_hashtags (optimize Twitter long_tweet)) \<le> max_hashtags Twitter
   \<and> length (get_text (optimize Instagram bare_post)) \<le> max_text_length Instagram
   \<and> min (min_hashtags Instagram)
        (length (get_hashtags bare_post) + length (default_hashtags Instagram))
       \<le> length (get_hashtags (optimize Instagram bare_post))"
  using optimize_constraints [of Twitter long_tweet] optimize_constraints [of Instagram bare_post]
    available_long_tweet
  by simp

theorem instagram_min_hashtags_counterexample:
  "length (get_hashtags (optimize Instagram bare_post)) = 4
   \<and> length (get_hashtags (optimize Instagram bare_post)) < min_hashtags Instagram"
  by (simp add: optimize_def hashtags_instagram hashtags_bare_post generic_hashtags_def)

text \<open>
  C6. For every agent and every content item with fewer hashtags than the agent's
  \<open>min_hashtags\<close>, when the pool of defaults holds the missing number of tags, the content
  \<open>optimize\<close> returns has exactly \<open>min_hashtags\<close> hashtags and the hashtags of the input
  come first, in their order.
\<close>

theorem optimize_pads_hashtags:
  assumes "length (get_hashtags c) < min_hashtags p"
    and "min_hashtags p - length (get_hashtags c) \<le> length (default_hashtags p)"
  shows "length (get_hashtags (optimize p c)) = min_hashtags p
         \<and> prefix (get_hashtags c) (get_hashtags (optimize p c))"
  using assms
  by (cases p)
     (auto simp: optimize_def hashtags_instagram hashtags_tiktok Let_def)

theorem optimize_pads_hashtags_witness:
  "length (get_hashtags six_tag_post) < min_hashtags Instagram
   \<and> min_hashtags Instagram - length (get_hashtags six_tag_post)
       \<le> length (default_hashtags Instagram)
   \<and> length (get_hashtags (optimize Instagram six_tag_post)) = 10
   \<and> prefix [''a'', ''b'', ''c'', ''d'', ''e'', ''f''] (get_hashtags (optimize Instagram six_tag_post))
   \<and> length (get_hashtags bare_post) < min_hashtags TikTok
   \<and> min_hashtags TikTok - length (get_hashtags bare_post) \<le> length (default_hashtags TikTok)
   \<and> length (get_hashtags (optimize TikTok bare_post)) = 3"
proof -
  have i1: "length (get_hashtags six_tag_post) < min_hashtags Instagram"
    by (simp add: six_tag_post_def get_hashtags_def)
  have i2: "min_hashtags Instagram - length (get_hashtags six_tag_post)
              \<le> length (default_hashtags Instagram)"
    by (simp add: six_tag_post_def get_hashtags_def generic_hashtags_def)
  have t1: "length (get_hashtags bare_post) < min_hashtags TikTok"
    by (simp add: bare_post_def get_hashtags_def)
  have t2: "min_hashtags TikTok - length (get_hashtags bare_post)
              \<le> length (default_hashtags TikTok)"
    by (simp add: bare_post_def get_hashtags_def tiktok_hashtags_def)
  have s: "get_hashtags six_tag_post = [''a'', ''b'', ''c'', ''d'', ''e'', ''f'']"
    by (simp add: six_tag_post_def get_hashtags_def)
  show ?thesis
    using i1 i2 t1 t2 optimize_pads_hashtags [OF i1 i2] optimize_pads_hashtags [OF t1 t2]
    by (simp add: s)
qed

text \<open>
  C7 (as amended). For every agent and every content item with fewer hashtags than
  \<open>min_hashtags\<close>, the hashtags \<open>optimize\<close> returns are those of the input followed by
  the first entries of the agent's pool, as many as are missing, in the order of the
  pool; no tag is appended twice. The appended tags are not compared with the tags of the
  input.
\<close>

theorem optimize_appends_pool_prefix:
  assumes "length (get_hashtags c) < min_hashtags p"
  shows "get_hashtags (optimize p c) =
           get_hashtags c @ take (min_hashtags p - length (get_hashtags c)) (default_hashtags p)
         \<and> distinct (take (min_hashtags p - length (get_hashtags c)) (default_hashtags p))"
  using assms
  by (cases p)
     (auto simp: optimize_def hashtags_instagram hashtags_tiktok Let_def
        generic_hashtags_def tiktok_hashtags_def intro: distinct_take)

theorem optimize_appends_pool_prefix_witness:
  "length (get_hashtags marketing_post) < min_hashtags Instagram
   \<and> get_hashtags (optimize Instagram marketing_post) =
       [''#marketing'', ''#marketing'', ''#business'', ''#socialmedia'', ''#content'']"
proof -
  have h: "length (get_hashtags marketing_post) < min_hashtags Instagram"
    by (simp add: marketing_post_def get_hashtags_def)
  show ?thesis
    using h optimize_appends_pool_prefix [OF h]
    by (simp add: marketing_post_def get_hashtags_def generic_hashtags_def)
qed

theorem appended_default_duplicates_counterexample:
  "length (get_hashtags marketing_post) < min_hashtags Instagram
   \<and> ''#marketing'' \<in> set (default_hashtags Instagram)
   \<and> count_list (get_hashtags (optimize Instagram marketing_post)) ''#marketing'' = 2
   \<and> \<not> distinct (get_hashtags (optimize Instagram marketing_post))"
  by (simp add: optimize_def hashtags_instagram hashtags_marketing_post generic_hashtags_def)

section \<open>Applying optimize\_content twice\<close>

lemma facebook_fixed:
  "length (get_text c) \<le> 500 \<Longrightarrow> length (get_hashtags c) \<le> 5
     \<Longrightarrow> facebook_optimize_content c = c"
  by (simp add: facebook_optimize_content_def Let_def)

lemma instagram_fixed:
  "length (get_text c) \<le> 300 \<Longrightarrow> 10 \<le> length (get_hashtags c)
     \<Longrightarrow> length (get_hashtags c) \<le> 30 \<Longrightarrow> instagram_optimize_content c = c"
  by (simp add: instagram_optimize_content_def Let_def)

lemma tiktok_fixed:
  "length (get_text c) \<le> 2200 \<Longrightarrow> 3 \<le> length (get_hashtags c)
     \<Longrightarrow> length (get_hashtags c) \<le> 10 \<Longrightarrow> tiktok_optimize_content c = c"
  by (simp add: tiktok_optimize_content_def Let_def)

lemma twitter_available_optimized:
  "twitter_available_chars (twitter_optimize_content c) = twitter_available_chars c"
  by (simp add: twitter_available_chars_def hashtags_twitter)

lemma twitter_text_fits:
  assumes "3 \<le> twitter_available_chars c"
  shows "int (length (get_text (twitter_optimize_content c))) \<le> twitter_available_chars c"
  using assms length_slice_twitter [of "twitter_available_chars c" "get_text c"]
  by (auto simp: text_twitter simp del: length_append)

lemma twitter_fixed:
  assumes "int (length (get_text x)) \<le> twitter_available_chars x"
    and "c_hashtags x = Some h" and "length h \<le> 5"
  shows "twitter_optimize_content x = x"
proof -
  have "get_hashtags x = h" using assms(2) by (simp add: get_hashtags_def)
  then show ?thesis
    using assms
    by (simp add: twitter_optimize_content_def twitter_available_chars_def Let_def)
qed

lemma twitter_idempotent:
  assumes "3 \<le> twitter_available_chars c"
  shows "twitter_optimize_content (twitter_optimize_content c) = twitter_optimize_content c"
proof (rule twitter_fixed)
  show "int (length (get_text (twitter_optimize_content c)))
          \<le> twitter_available_chars (twitter_optimize_content c)"
    using twitter_text_fits [OF assms] by (simp add: twitter_available_optimized)
  show "c_hashtags (twitter_optimize_content c) = Some (take 5 (get_hashtags c))"
    by (simp add: twitter_optimize_content_def Let_def)
  show "length (take 5 (get_hashtags c)) \<le> 5" by simp
qed

lemma optimize_idempotent:
  assumes "satisfies_constraints p c"
    and "p = Twitter \<Longrightarrow> 3 \<le> twitter_available_chars c"
  shows "optimize p (optimize p c) = optimize p c"
proof (cases p)
  case Twitter
  then show ?thesis using assms(2) by (simp add: optimize_def twitter_idempotent)
next
  case Facebook
  then show ?thesis using assms(1)
    by (simp add: optimize_def satisfies_constraints_def facebook_fixed)
next
  case Instagram
  then show ?thesis using assms(1)
    by (simp add: optimize_def satisfies_constraints_def instagram_fixed)
next
  case TikTok
  then show ?thesis using assms(1)
    by (simp add: optimize_def satisfies_constraints_def tiktok_fixed)
qed

lemma text_long_tag_tweet: "get_text long_tag_tweet = ''abcdef''"
  by (simp add: long_tag_tweet_def get_text_def)

lemma text_long_tag_tweet_once:
  "get_text (twitter_optimize_content long_tag_tweet) = ''abcde...''"
  by (simp add: text_twitter available_long_tag_tweet text_long_tag_tweet py_slice_to_def)

lemma text_long_tag_tweet_twice:
  "get_text (twitter_optimize_content (twitter_optimize_content long_tag_tweet)) = ''abcde.....''"
  by (simp add: text_twitter [of "twitter_optimize_content long_tag_tweet"]
      twitter_available_optimized available_long_tag_tweet text_long_tag_tweet_once
      py_slice_to_def)

text \<open>
  C5. For every agent and every content item within the agent's limits, applying
  \<open>optimize\<close> twice gives what applying it once gives. \<open>optimize_idempotent\<close> above
  shows this for Facebook, Instagram and TikTok, and for Twitter when \<^verbatim>\<open>available_chars\<close>
  is at least 3. The Twitter agent does not meet it on \<open>long_tag_tweet\<close>, a six-character
  text with one hashtag of 275 characters: \<^verbatim>\<open>available_chars\<close> is 2, the slice bound
  \<^verbatim>\<open>available_chars - 3\<close> is negative, and every application drops the last character
  of the text and appends the marker again.
\<close>

theorem twitter_optimize_not_idempotent:
  "satisfies_constraints Twitter long_tag_tweet
   \<and> get_text (optimize Twitter long_tag_tweet) = ''abcde...''
   \<and> get_text (optimize Twitter (optimize Twitter long_tag_tweet)) = ''abcde.....''
   \<and> optimize Twitter (optimize Twitter long_tag_tweet) \<noteq> optimize Twitter long_tag_tweet"
proof -
  have s: "satisfies_constraints Twitter long_tag_tweet"
    by (simp add: satisfies_constraints_def text_long_tag_tweet)
       (simp add: long_tag_tweet_def get_hashtags_def)
  have "get_text (optimize Twitter (optimize Twitter long_tag_tweet))
          \<noteq> get_text (optimize Twitter long_tag_tweet)"
    by (simp add: optimize_def text_long_tag_tweet_once text_long_tag_tweet_twice)
  then have "optimize Twitter (optimize Twitter long_tag_tweet) \<noteq> optimize Twitter long_tag_tweet"
    by auto
  then show ?thesis
    using s by (simp add: optimize_def text_long_tag_tweet_once text_long_tag_tweet_twice)
qed

section \<open>What publish\_content returns\<close>

lemma twitter_publish_carries:
  "r_platform (twitter_publish_content client c cid) = ''twitter''
   \<and> r_client_id (twitter_publish_content client c cid) = cid"
  by (auto simp: twitter_publish_content_def twitter_publish_try_def Let_def
      split: option.splits sum.splits)

lemma facebook_publish_carries:
  "r_platform (facebook_publish_content graph c cid) = ''facebook''
   \<and> r_client_id (facebook_publish_content graph c cid) = cid"
  by (auto simp: facebook_publish_content_def facebook_publish_try_def Let_def
      split: option.splits sum.splits)

lemma instagram_publish_carries:
  "r_platform (instagram_publish_content hash token c cid) = ''instagram''
   \<and> r_client_id (instagram_publish_content hash token c cid) = cid"
  by (simp add: instagram_publish_content_def instagram_publish_try_def Let_def)

lemma tiktok_publish_carries:
  "r_platform (tiktok_publish_content hash c cid) = ''tiktok''
   \<and> r_client_id (tiktok_publish_content hash c cid) = cid"
  by (simp add: tiktok_publish_content_def tiktok_publish_try_def Let_def)

lemma twitter_publish_no_client:
  "twitter_publish_content None c cid = Failed ''twitter'' ''Twitter client not initialized'' cid"
  by (simp add: twitter_publish_content_def twitter_publish_try_def)

lemma twitter_publish_call_raises:
  "(\<And>t. create_tweet t = Inl e)
     \<Longrightarrow> twitter_publish_content (Some create_tweet) c cid = Failed ''twitter'' (str_exn e) cid"
  by (simp add: twitter_publish_content_def twitter_publish_try_def Let_def)

lemma twitter_publish_no_id:
  assumes "\<And>t. create_tweet t = Inr d"
    and "\<not> truthy d \<or> map_of (the d) ''id'' = None"
  shows "r_status (twitter_publish_content (Some create_tweet) c cid) = ''failed''"
  using assms
  by (auto simp: twitter_publish_content_def twitter_publish_try_def Let_def)

lemma facebook_publish_no_graph:
  "facebook_publish_content None c cid =
     Failed ''facebook'' ''Facebook Graph API not initialized'' cid"
  by (simp add: facebook_publish_content_def facebook_publish_try_def)

lemma facebook_publish_call_raises:
  "(\<And>d. put_object d = Inl e)
     \<Longrightarrow> facebook_publish_content (Some put_object) c cid = Failed ''facebook'' (str_exn e) cid"
  by (simp add: facebook_publish_content_def facebook_publish_try_def Let_def)

text \<open>
  C3. \<open>publish\<close> never raises: every failure (no connection, the external call raising,
  a response without a post identifier) gives a failed result, and every result carries
  the platform name and the client reference. The lemmas above show this for all four
  agents but for one path: the Facebook agent reads the identifier with
  \<^verbatim>\<open>result.get("id")\<close> and does not look at it, so a response without an identifier is
  returned as a success whose post identifier is \<open>None\<close>, where the Twitter agent
  raises and returns a failed result.
\<close>

theorem facebook_publish_missing_id:
  "facebook_publish_content (Some empty_reply_graph) bare_post ''client_1'' =
     Success ''facebook'' None ''client_1'' []
   \<and> r_status (facebook_publish_content (Some empty_reply_graph) bare_post ''client_1'')
       = ''success''"
  by (simp add: facebook_publish_content_def facebook_publish_try_def empty_reply_graph_def
      Let_def)

section \<open>Decimal rendering and the hashtag line\<close>

lemma digit_cases:
  "d < (10::nat) \<Longrightarrow>
     d = 0 \<or> d = 1 \<or> d = 2 \<or> d = 3 \<or> d = 4 \<or> d = 5 \<or> d = 6 \<or> d = 7 \<or> d = 8 \<or> d = 9"
  by arith

lemma of_char_digit_char: "d < 10 \<Longrightarrow> (of_char (digit_char d) :: nat) = 48 + d"
  using digit_cases [of d] by (auto simp: digit_char_def)

lemma digit_char_is_digit: "d < 10 \<Longrightarrow> digit_char d \<in> set ''0123456789''"
  using digit_cases [of d] by (auto simp: digit_char_def)

lemma digit_char_zero: "d < 10 \<Longrightarrow> digit_char d = CHR ''0'' \<Longrightarrow> d = 0"
  using digit_cases [of d] by (auto simp: digit_char_def)

lemma str_nat_small: "n < 10 \<Longrightarrow> str_nat n = [digit_char n]"
  by (simp add: str_nat.simps)

lemma str_nat_large:
  "\<not> n < 10 \<Longrightarrow> str_nat n = str_nat (n div 10) @ [digit_char (n mod 10)]"
  by (subst str_nat.simps) simp

lemma str_nat_nonempty: "str_nat n \<noteq> []"
  by (cases "n < 10") (simp_all add: str_nat_small str_nat_large)

lemma str_nat_digits: "set (str_nat n) \<subseteq> set ''0123456789''"
proof (induction n rule: str_nat.induct)
  case (1 n)
  show ?case
  proof (cases "n < 10")
    case True
    then show ?thesis using digit_char_is_digit [of n] by (simp add: str_nat_small)
  next
    case False
    have "digit_char (n mod 10) \<in> set ''0123456789''"
      by (rule digit_char_is_digit) simp
    then show ?thesis using False "1.IH" by (simp add: str_nat_large)
  qed
qed

lemma str_nat_value:
  "foldl (\<lambda>a ch. 10 * a + (of_char ch - 48)) 0 (str_nat n) = n"
proof (induction n rule: str_nat.induct)
  case (1 n)
  show ?case
  proof (cases "n < 10")
    case True
    then show ?thesis by (simp add: str_nat_small of_char_digit_char)
  next
    case False
    have "(of_char (digit_char (n mod 10)) :: nat) = 48 + n mod 10"
      by (rule of_char_digit_char) simp
    then show ?thesis using False "1.IH" by (simp add: str_nat_large)
  qed
qed

lemma str_nat_leading:
  "hd (str_nat n) = CHR ''0'' \<Longrightarrow> n = 0"
proof (induction n rule: str_nat.induct)
  case (1 n)
  show ?case
  proof (cases "n < 10")
    case True
    then show ?thesis using "1.prems" digit_char_zero [of n] by (simp add: str_nat_small)
  next
    case False
    then have "hd (str_nat n) = hd (str_nat (n div 10))"
      using str_nat_nonempty [of "n div 10"] by (simp add: str_nat_large)
    then have "n div 10 = 0" using False "1.IH" "1.prems" by simp
    then show ?thesis using False by simp
  qed
qed

lemma str_nat_0: "str_nat 0 = ''0''"
  by (simp add: str_nat_small digit_char_def)

lemma hashtag_line_Cons:
  "hashtag_line (t # ts) = CHR ''#'' # t @ concat (map (\<lambda>tag. '' #'' @ tag) ts)"
  by (induction ts arbitrary: t) (simp_all add: hashtag_line_def)

lemma hashtag_line_closed:
  "tags \<noteq> [] \<Longrightarrow>
     hashtag_line tags = CHR ''#'' # hd tags @ concat (map (\<lambda>tag. '' #'' @ tag) (tl tags))"
  by (cases tags) (simp_all add: hashtag_line_Cons)

lemma caption_of_closed:
  "caption_of c =
     get_text c @
       (if get_hashtags c = [] then []
        else [CHR 0x0A, CHR 0x0A] @ CHR ''#'' # hd (get_hashtags c)
               @ concat (map (\<lambda>tag. '' #'' @ tag) (tl (get_hashtags c))))"
proof -
  have "(@) '' #'' = (\<lambda>tag. CHR '' '' # CHR ''#'' # tag)"
    by (simp add: fun_eq_iff)
  then show ?thesis
    by (simp add: caption_of_def Let_def two_newlines_def hashtag_line_closed)
qed

text \<open>
  C10. For every content item and client id, the Instagram agent's \<open>publish\<close>, whenever
  an access token is configured (the setting holds a non-empty string), and the TikTok
  agent's \<open>publish\<close>, always, return a success. The caption is the text, followed when
  there are hashtags by two newlines and the hashtags, each behind a \<^verbatim>\<open>#\<close>, with one
  space between them. The post identifier is \<^verbatim>\<open>ig_\<close> or \<^verbatim>\<open>tiktok_\<close>, the client id, an
  underscore, and the decimal digits, without a leading zero, of the hash of the caption
  modulo 10000, a number from 0 to 9999. Neither agent returns a failed result.
\<close>

theorem simulated_publish_succeeds:
  "(let tags = get_hashtags c;
        caption =
          get_text c @
            (if tags = [] then []
             else [CHR 0x0A, CHR 0x0A] @ CHR ''#'' # hd tags
                    @ concat (map (\<lambda>tag. '' #'' @ tag) (tl tags)));
        n = hash caption mod 10000;
        digits = str_int n
    in (token = Some t \<and> t \<noteq> [] \<longrightarrow>
          instagram_publish_content hash token c cid =
            Success ''instagram'' (Some (''ig_'' @ cid @ ''_'' @ digits)) cid
              [(''caption'', caption)])
       \<and> tiktok_publish_content hash c cid =
            Success ''tiktok'' (Some (''tiktok_'' @ cid @ ''_'' @ digits)) cid
              [(''description'', caption),
               (''note'', ''TikTok posting requires video content - this is a simulation'')]
       \<and> 0 \<le> n \<and> n < 10000
       \<and> digits \<noteq> [] \<and> set digits \<subseteq> set ''0123456789''
       \<and> (hd digits = CHR ''0'' \<longrightarrow> digits = ''0'')
       \<and> int (foldl (\<lambda>a ch. 10 * a + (of_char ch - 48)) 0 digits) = n)"
proof -
  define n where "n = hash (caption_of c) mod 10000"
  have n: "0 \<le> n" "n < 10000" by (simp_all add: n_def)
  then have s: "str_int n = str_nat (nat n)" by (simp add: str_int_def)
  have lead: "hd (str_int n) = CHR ''0'' \<longrightarrow> str_int n = ''0''"
    using str_nat_leading [of "nat n"] by (auto simp: s str_nat_0)
  have val: "int (foldl (\<lambda>a ch. 10 * a + (of_char ch - 48)) 0 (str_int n)) = n"
    using n by (simp add: s str_nat_value)
  have ig: "token = Some t \<and> t \<noteq> [] \<longrightarrow>
      instagram_publish_content hash token c cid =
        Success ''instagram'' (Some (''ig_'' @ cid @ ''_'' @ str_int n)) cid
          [(''caption'', caption_of c)]"
    by (simp add: instagram_publish_content_def instagram_publish_try_def truthy_def
        Let_def n_def)
  have tt: "tiktok_publish_content hash c cid =
      Success ''tiktok'' (Some (''tiktok_'' @ cid @ ''_'' @ str_int n)) cid
        [(''description'', caption_of c),
         (''note'', ''TikTok posting requires video content - this is a simulation'')]"
    by (simp add: tiktok_publish_content_def tiktok_publish_try_def Let_def n_def)
  show ?thesis
    unfolding Let_def caption_of_closed [symmetric] n_def [symmetric]
    using ig tt n lead val str_nat_nonempty [of "nat n"] str_nat_digits [of "nat n"]
    by (simp only: s) simp
qed

lemma text_two_tag_post: "get_text two_tag_post = ''hello''"
  by (simp add: two_tag_post_def get_text_def)

lemma hashtags_two_tag_post: "get_hashtags two_tag_post = [''sale'', ''new'']"
  by (simp add: two_tag_post_def get_hashtags_def)

lemma str_int_9983: "str_int 9983 = ''9983''"
  by (simp add: str_int_def str_nat.simps digit_char_def)

theorem simulated_publish_succeeds_witness:
  "Some ''token'' = Some ''token'' \<and> ''token'' \<noteq> []
   \<and> instagram_publish_content negated_length_hash (Some ''token'') two_tag_post ''client_1'' =
       Success ''instagram'' (Some ''ig_client_1_9983'') ''client_1''
         [(''caption'', ''hello'' @ [CHR 0x0A, CHR 0x0A] @ ''#sale #new'')]
   \<and> tiktok_publish_content negated_length_hash two_tag_post ''client_1'' =
       Success ''tiktok'' (Some ''tiktok_client_1_9983'') ''client_1''
         [(''description'', ''hello'' @ [CHR 0x0A, CHR 0x0A] @ ''#sale #new''),
          (''note'', ''TikTok posting requires video content - this is a simulation'')]"
  using simulated_publish_succeeds
    [of two_tag_post negated_length_hash "Some ''token''" "''token''" "''client_1''"]
  by (simp add: Let_def text_two_tag_post hashtags_two_tag_post negated_length_hash_def
      str_int_9983)

section \<open>The workflow\<close>

lemma workflow_states_end: "workflow_states clock n END s = []"
  by (simp add: workflow_states.simps)

lemma workflow_states_step:
  "nd \<noteq> END \<Longrightarrow>
     workflow_states clock n nd s =
       node_action nd (clock n) s
         # workflow_states clock (Suc n) (edge nd) (node_action nd (clock n) s)"
  by (subst workflow_states.simps) (simp add: Let_def)

lemma run_workflow_end: "run_workflow clock n END s = s"
  by (simp add: run_workflow.simps)

lemma run_workflow_step:
  "nd \<noteq> END \<Longrightarrow>
     run_workflow clock n nd s = run_workflow clock (Suc n) (edge nd) (node_action nd (clock n) s)"
  by (subst run_workflow.simps) simp

lemma workflow_states_entry:
  "workflow_states clock n entry_point s =
     [analyze_brief (clock n) s,
      generate_content (clock (Suc n)) (analyze_brief (clock n) s),
      finalize (clock (Suc (Suc n)))
        (generate_content (clock (Suc n)) (analyze_brief (clock n) s))]"
  by (simp add: entry_point_def workflow_states_step workflow_states_end)

lemma run_workflow_entry:
  "run_workflow clock n entry_point s =
     finalize (clock (Suc (Suc n)))
       (generate_content (clock (Suc n)) (analyze_brief (clock n) s))"
  by (simp add: entry_point_def run_workflow_step run_workflow_end)

lemma run_workflow_last:
  "run_workflow clock n entry_point s = last (s # workflow_states clock n entry_point s)"
  by (simp add: workflow_states_entry run_workflow_entry)

text \<open>
  C4 (as amended). \<^verbatim>\<open>execute_campaign\<close> does not validate the list of target platforms
  and raises no configuration error: for every list, empty or naming a platform no agent
  exists for, it returns a state whose status is \<^verbatim>\<open>completed\<close>, with the list as given
  and with no generated content, no published content and no error message.
\<close>

theorem execute_campaign_any_platforms:
  "\<exists>result. execute_campaign clock cid obj brief platforms camp = Inr result
     \<and> status result = ''completed''
     \<and> target_platforms result = platforms
     \<and> generated_content result = []
     \<and> published_content result = []
     \<and> error_messages result = []"
  by (simp add: execute_campaign_def ainvoke_def run_workflow_entry initial_state_def
      analyze_brief_def generate_content_def finalize_def)

theorem execute_campaign_no_validation_counterexample:
  "execute_campaign int ''client_1'' ''launch'' ''brief'' [] None =
     Inr \<lparr>client_id = ''client_1'', campaign_id = None, objective = ''launch'',
          content_brief = ''brief'', target_platforms = [], generated_content = [],
          published_content = [], analytics_data = [], ghl_data = [], error_messages = [],
          status = ''completed'', created_at = 0, updated_at = 4\<rparr>
   \<and> execute_campaign int ''client_1'' ''launch'' ''brief'' [''myspace''] None =
     Inr \<lparr>client_id = ''client_1'', campaign_id = None, objective = ''launch'',
          content_brief = ''brief'', target_platforms = [''myspace''], generated_content = [],
          published_content = [], analytics_data = [], ghl_data = [], error_messages = [],
          status = ''completed'', created_at = 0, updated_at = 4\<rparr>"
  by (simp add: execute_campaign_def ainvoke_def run_workflow_entry initial_state_def
      analyze_brief_def generate_content_def finalize_def)

text \<open>
  C9 (as amended). Within one execution the status runs through \<^verbatim>\<open>started\<close>,
  \<^verbatim>\<open>brief_analyzed\<close>, \<^verbatim>\<open>content_generated\<close>, \<^verbatim>\<open>completed\<close>, in this order, each once,
  and every transition sets \<^verbatim>\<open>updated_at\<close> to the clock reading made at that transition;
  the state returned is the last of the sequence.
\<close>

theorem execution_status_sequence:
  "map status (execution_states clock cid obj brief platforms camp) =
     [''started'', ''brief_analyzed'', ''content_generated'', ''completed'']
   \<and> map updated_at (execution_states clock cid obj brief platforms camp) =
     [clock 1, clock 2, clock 3, clock 4]
   \<and> execute_campaign clock cid obj brief platforms camp =
     Inr (last (execution_states clock cid obj brief platforms camp))"
  by (simp add: execution_states_def Let_def workflow_states_entry execute_campaign_def
      ainvoke_def run_workflow_entry initial_state_def analyze_brief_def generate_content_def
      finalize_def eval_nat_numeral)

theorem status_sequence_counterexample:
  "map status (execution_states int ''client_1'' ''launch'' ''brief'' [''twitter''] None)
     \<noteq> [''started'', ''content_generated'', ''completed'']
   \<and> status (execution_states int ''client_1'' ''launch'' ''brief'' [''twitter''] None ! 1)
       = ''brief_analyzed''"
  by (simp add: execution_states_def Let_def workflow_states_entry initial_state_def
      analyze_brief_def generate_content_def finalize_def)

section \<open>The vector store\<close>

lemma initialize_failed:
  assumes "initialize persistent_client sentence_transformer (new_manager path) = (m, Some e)"
  shows "collection m = None \<or> encoder m = None"
  using assms
  by (auto simp: initialize_def new_manager_def Let_def split: sum.splits)

lemma initialize_succeeded:
  assumes "initialize persistent_client sentence_transformer (new_manager path) = (m, None)"
  shows "collection m \<noteq> None \<and> encoder m \<noteq> None"
  using assms
  by (auto simp: initialize_def new_manager_def Let_def split: sum.splits)

text \<open>
  C8 (as amended). While the collection or the encoder is unset, \<^verbatim>\<open>store_content\<close>
  raises \<^verbatim>\<open>Vector store not initialized\<close> to its caller and
  \<^verbatim>\<open>search_similar_content\<close> returns the empty list; while the collection is unset,
  \<^verbatim>\<open>get_content_by_id\<close> returns \<open>None\<close> and \<^verbatim>\<open>delete_content\<close> returns \<open>False\<close>.
  Only \<^verbatim>\<open>store_content\<close> lets the error reach the caller.
\<close>

theorem uninitialized_store_operations:
  "(collection m = None \<or> encoder m = None \<longrightarrow>
      store_content m hash now_ts now_iso content md content_id =
        Inl (Exception ''Vector store not initialized'')
      \<and> search_similar_content m query limit filter_metadata = [])
   \<and> (collection m = None \<longrightarrow>
      get_content_by_id m i = None \<and> delete_content m i = False)"
  by (simp add: store_content_def store_content_try_def search_similar_content_def
      search_similar_content_try_def get_content_by_id_def get_content_by_id_try_def
      delete_content_def delete_content_try_def)

theorem uninitialized_store_operations_witness:
  "collection (new_manager ''./data/vectorstore'') = None
   \<and> store_content (new_manager ''./data/vectorstore'') length_hash 0 ''2025'' ''text''
        [] None = Inl (Exception ''Vector store not initialized'')
   \<and> search_similar_content (new_manager ''./data/vectorstore'') ''text'' 10 None = []
   \<and> get_content_by_id (new_manager ''./data/vectorstore'') ''campaign_1'' = None
   \<and> delete_content (new_manager ''./data/vectorstore'') ''campaign_1'' = False"
proof -
  have c: "collection (new_manager ''./data/vectorstore'') = None"
    by (simp add: new_manager_def)
  show ?thesis
    using c uninitialized_store_operations [of "new_manager ''./data/vectorstore''"]
    by simp
qed

theorem uninitialized_search_counterexample:
  "collection (new_manager ''./data/vectorstore'') = None
   \<and> encoder (new_manager ''./data/vectorstore'') = None
   \<and> search_similar_content (new_manager ''./data/vectorstore'') ''text'' 10 None = []
   \<and> get_content_by_id (new_manager ''./data/vectorstore'') ''campaign_1'' = None
   \<and> delete_content (new_manager ''./data/vectorstore'') ''campaign_1'' = False"
  by (simp add: new_manager_def search_similar_content_def search_similar_content_try_def
      get_content_by_id_def get_content_by_id_try_def delete_content_def
      delete_content_try_def)

end
